theory Spec2Isabelle
  imports Main
begin

section \<open>Student report service: session tokens, resilient fetch and request handler\<close>

text \<open>
  A shallow embedding of \<^verbatim>\<open>go-service/main.go\<close>. The process-wide variable
  \<^verbatim>\<open>authTokens\<close>, the requests sent to the backend and the clock readings taken are
  threaded through every function as an explicit state. Everything outside the
  repository (the backend, the clock, the environment, the JSON decoder, the URL parser
  and the PDF layout engine) is a field of a record of arbitrary functions, so a theorem
  over all such records holds for every behaviour of these collaborators.
  \<^verbatim>\<open>log.Fatalf\<close> ends the process: a run is either \<open>Done\<close> with a value or \<open>Exited\<close>.
  Log lines are not modelled.
\<close>

subsection \<open>Data model\<close>

text \<open>Instants are nanoseconds since the zero value of \<^verbatim>\<open>time.Time\<close>; durations are nanoseconds.\<close>

type_synonym time = int
type_synonym duration = int

record StudentDetail =
  ID :: int
  Name :: string
  Email :: string
  SystemAccess :: bool
  Phone :: string
  Gender :: string
  DOB :: string
  Class :: string
  Section :: string
  Roll :: string
  FatherName :: string
  FatherPhone :: string
  MotherName :: string
  MotherPhone :: string
  GuardianName :: string
  GuardianPhone :: string
  RelationOfGuardian :: string
  CurrentAddress :: string
  PermanentAddress :: string
  AdmissionDate :: string
  ReporterName :: string

record User =
  UserID :: int
  UserName :: string
  UserRole :: string

record LoginResponse =
  AccessToken :: string
  LoginUser :: User

record Config =
  Port :: string
  BackendURL :: string
  AdminEmail :: string
  AdminPassword :: string

text \<open>The anonymous struct type of the global \<^verbatim>\<open>authTokens\<close>.\<close>

record AuthTokens =
  accessToken :: string
  refreshToken :: string
  csrfToken :: string
  lastRefresh :: time

subsection \<open>HTTP exchange with the backend\<close>

text \<open>
  A request body is either absent or the JSON encoding of a string map, kept as the
  map's entries.
\<close>

datatype payload = NoBody | JSONMap "(string \<times> string) list"

record request =
  Method :: string
  URL :: string
  ReqCookies :: "(string \<times> string) list"
  ReqHeaders :: "(string \<times> string) list"
  ReqBody :: payload

record response =
  StatusCode :: int
  Cookies :: "(string \<times> string) list"
  Body :: string

text \<open>What \<^verbatim>\<open>client.Post\<close> and \<^verbatim>\<open>client.Do\<close> return: an error (no connection,
  the 10 second timeout) or a response.\<close>

datatype http_result = NetError string | Resp response

datatype pdf_cmd =
  New string string string string
  | AddPage
  | SetFont string string int
  | Cell int int string
  | Ln int
  | SetY int

text \<open>
  The collaborators that are not code of the repository. \<open>upstream\<close> answers a request
  given the requests sent before it; \<open>clock\<close> gives the n-th reading of
  \<^verbatim>\<open>time.Now()\<close>; \<open>getenv\<close> is the environment once \<^verbatim>\<open>godotenv.Load\<close> has run;
  \<open>newRequestOK\<close> says whether \<^verbatim>\<open>http.NewRequest\<close> accepts a URL; \<open>decodeLogin\<close> and
  \<open>decodeStudent\<close> are \<^verbatim>\<open>json.Decoder.Decode\<close> at the two target types;
  \<open>formatDate\<close> is \<^verbatim>\<open>Format("January 2, 2006")\<close>; \<open>pdfOutput\<close> is the layout
  engine's \<^verbatim>\<open>Output\<close>, given the drawing commands and the instant of the call.
\<close>

record platform =
  upstream :: "request list \<Rightarrow> request \<Rightarrow> http_result"
  clock :: "nat \<Rightarrow> time"
  getenv :: "string \<Rightarrow> string"
  newRequestOK :: "string \<Rightarrow> bool"
  decodeLogin :: "string \<Rightarrow> LoginResponse option"
  decodeStudent :: "string \<Rightarrow> StudentDetail option"
  formatDate :: "time \<Rightarrow> string"
  pdfOutput :: "pdf_cmd list \<Rightarrow> time \<Rightarrow> string + string"

text \<open>The mutable state: the global, the requests sent so far (oldest first) and the
  number of clock readings taken.\<close>

record state =
  authTokens :: AuthTokens
  sent :: "request list"
  ticks :: nat

datatype 'a run = Done 'a | Exited

datatype fetch_error =
  ErrCreatingRequest
  | ErrMakingRequest string
  | ErrMakingRequestAfterRefresh string
  | ErrStatusAfterRefresh int string
  | ErrNotFound string
  | ErrStatus int string
  | ErrDecoding

record http_reply =
  Status :: int
  ReplyHeaders :: "(string \<times> string) list"
  ReplyBody :: string

subsection \<open>Time\<close>

definition Minute :: duration where
  "Minute = 60 * 1000000000"

definition maxDuration :: duration where
  "maxDuration = 2 ^ 63 - 1"

definition minDuration :: duration where
  "minDuration = - (2 ^ 63)"

definition time_Now :: "platform \<Rightarrow> state \<Rightarrow> time \<times> state" where
  "time_Now P s = (clock P (ticks s), s\<lparr>ticks := Suc (ticks s)\<rparr>)"

text \<open>\<^verbatim>\<open>Time.Sub\<close> saturates at the ends of the 64-bit duration range.\<close>

definition time_Sub :: "time \<Rightarrow> time \<Rightarrow> duration" where
  "time_Sub t u =
     (if t - u > maxDuration then maxDuration
      else if t - u < minDuration then minDuration
      else t - u)"

definition time_Since :: "platform \<Rightarrow> time \<Rightarrow> state \<Rightarrow> duration \<times> state" where
  "time_Since P t s = (case time_Now P s of (now, s') \<Rightarrow> (time_Sub now t, s'))"

subsection \<open>Configuration\<close>

definition getEnv :: "platform \<Rightarrow> string \<Rightarrow> string \<Rightarrow> string" where
  "getEnv P key defaultValue =
     (let v = getenv P key in if v = [] then defaultValue else v)"

definition loadConfig :: "platform \<Rightarrow> Config" where
  "loadConfig P =
     \<lparr>Port = getEnv P ''PORT'' ''5008'',
      BackendURL = getEnv P ''BACKEND_URL'' ''http://localhost:5007/api/v1'',
      AdminEmail = getEnv P ''ADMIN_EMAIL'' ''admin@school-admin.com'',
      AdminPassword = getEnv P ''ADMIN_PASSWORD'' ''3OU4zn3q6Zh9''\<rparr>"

subsection \<open>Authenticator\<close>

text \<open>Sending a request records it and asks the backend.\<close>

definition client_Do :: "platform \<Rightarrow> request \<Rightarrow> state \<Rightarrow> http_result \<times> state" where
  "client_Do P req s = (upstream P (sent s) req, s\<lparr>sent := sent s @ [req]\<rparr>)"

text \<open>\<^verbatim>\<open>json.Marshal\<close> of a string map cannot fail; the error branch of the source is kept.\<close>

definition json_Marshal :: "(string \<times> string) list \<Rightarrow> payload option" where
  "json_Marshal m = Some (JSONMap m)"

definition loginRequest :: "Config \<Rightarrow> payload \<Rightarrow> request" where
  "loginRequest config loginJSON =
     \<lparr>Method = ''POST'',
      URL = BackendURL config @ ''/auth/login'',
      ReqCookies = [],
      ReqHeaders = [(''Content-Type'', ''application/json'')],
      ReqBody = loginJSON\<rparr>"

text \<open>The body of the loop over \<^verbatim>\<open>resp.Cookies()\<close>.\<close>

definition storeCookie :: "AuthTokens \<Rightarrow> string \<times> string \<Rightarrow> AuthTokens" where
  "storeCookie a cookie =
     (if fst cookie = ''accessToken'' then a\<lparr>accessToken := snd cookie\<rparr>
      else if fst cookie = ''refreshToken'' then a\<lparr>refreshToken := snd cookie\<rparr>
      else if fst cookie = ''csrfToken'' then a\<lparr>csrfToken := snd cookie\<rparr>
      else a)"

definition authenticateWithBackend :: "platform \<Rightarrow> Config \<Rightarrow> state \<Rightarrow> unit run \<times> state" where
  "authenticateWithBackend P config s =
     (case json_Marshal [(''username'', AdminEmail config), (''password'', AdminPassword config)] of
        None \<Rightarrow> (Exited, s)
      | Some loginJSON \<Rightarrow>
         (case client_Do P (loginRequest config loginJSON) s of
            (NetError e, s1) \<Rightarrow> (Exited, s1)
          | (Resp resp, s1) \<Rightarrow>
              if StatusCode resp \<noteq> 200 then (Exited, s1)
              else
                let s2 = s1\<lparr>authTokens := foldl storeCookie (authTokens s1) (Cookies resp)\<rparr>
                in (case decodeLogin P (Body resp) of
                      None \<Rightarrow> (Exited, s2)
                    | Some loginResponse \<Rightarrow>
                        (case time_Now P s2 of
                           (now, s3) \<Rightarrow>
                             (Done (), s3\<lparr>authTokens := (authTokens s3)\<lparr>lastRefresh := now\<rparr>\<rparr>)))))"

subsection \<open>Resilient fetcher\<close>

text \<open>Lines 210 to 215: the freshness check.\<close>

definition refreshIfStale :: "platform \<Rightarrow> state \<Rightarrow> unit run \<times> state" where
  "refreshIfStale P s =
     (case time_Since P (lastRefresh (authTokens s)) s of
        (age, s0) \<Rightarrow>
          if age > 14 * Minute then authenticateWithBackend P (loadConfig P) s0
          else (Done (), s0))"

text \<open>The read request with the three cookies and the anti-forgery header, as built
  before the first attempt and again before the retry.\<close>

definition studentRequest :: "string \<Rightarrow> AuthTokens \<Rightarrow> request" where
  "studentRequest url a =
     \<lparr>Method = ''GET'',
      URL = url,
      ReqCookies = [(''accessToken'', accessToken a), (''refreshToken'', refreshToken a),
                    (''csrfToken'', csrfToken a)],
      ReqHeaders = [(''X-CSRF-Token'', csrfToken a)],
      ReqBody = NoBody\<rparr>"

text \<open>\<^verbatim>\<open>fmt.Sprintf("%s/students/%s", backendURL, studentID)\<close>.\<close>

definition studentURL :: "string \<Rightarrow> string \<Rightarrow> string" where
  "studentURL backendURL studentID = backendURL @ ''/students/'' @ studentID"

text \<open>Lines 272 to 278: decoding the body of the response that was kept.\<close>

definition parseStudent :: "platform \<Rightarrow> response \<Rightarrow> fetch_error + StudentDetail" where
  "parseStudent P resp =
     (case decodeStudent P (Body resp) of
        None \<Rightarrow> Inl ErrDecoding
      | Some student \<Rightarrow> Inr student)"

text \<open>
  The retry builds its request with the error of \<^verbatim>\<open>http.NewRequest\<close> dropped; the URL is
  the one that was accepted for the first attempt, so that call succeeds too.
\<close>

definition fetchStudentData ::
  "platform \<Rightarrow> string \<Rightarrow> string \<Rightarrow> state \<Rightarrow> (fetch_error + StudentDetail) run \<times> state" where
  "fetchStudentData P backendURL studentID s =
     (case refreshIfStale P s of
        (Exited, s1) \<Rightarrow> (Exited, s1)
      | (Done _, s1) \<Rightarrow>
          let url = studentURL backendURL studentID in
          if \<not> newRequestOK P url then (Done (Inl ErrCreatingRequest), s1)
          else
            (case client_Do P (studentRequest url (authTokens s1)) s1 of
               (NetError e, s2) \<Rightarrow> (Done (Inl (ErrMakingRequest e)), s2)
             | (Resp resp, s2) \<Rightarrow>
                 if StatusCode resp = 401 then
                   (case authenticateWithBackend P (loadConfig P) s2 of
                      (Exited, s3) \<Rightarrow> (Exited, s3)
                    | (Done _, s3) \<Rightarrow>
                        (case client_Do P (studentRequest url (authTokens s3)) s3 of
                           (NetError e, s4) \<Rightarrow> (Done (Inl (ErrMakingRequestAfterRefresh e)), s4)
                         | (Resp resp2, s4) \<Rightarrow>
                             if StatusCode resp2 \<noteq> 200
                             then (Done (Inl (ErrStatusAfterRefresh (StatusCode resp2) (Body resp2))), s4)
                             else (Done (parseStudent P resp2), s4)))
                 else if StatusCode resp = 404 then (Done (Inl (ErrNotFound studentID)), s2)
                 else if StatusCode resp \<noteq> 200
                 then (Done (Inl (ErrStatus (StatusCode resp) (Body resp))), s2)
                 else (Done (parseStudent P resp), s2)))"

subsection \<open>Render pipeline\<close>

text \<open>\<^verbatim>\<open>fmt.Sprintf("%d", n)\<close>.\<close>

fun showNat :: "nat \<Rightarrow> string" where
  "showNat n =
     (if n < 10 then [char_of (48 + n)]
      else showNat (n div 10) @ [char_of (48 + n mod 10)])"

declare showNat.simps [simp del]

definition showInt :: "int \<Rightarrow> string" where
  "showInt i = (if i < 0 then CHR ''-'' # showNat (nat (- i)) else showNat (nat i))"

definition addInfoRow :: "string \<Rightarrow> string \<Rightarrow> pdf_cmd list" where
  "addInfoRow label v =
     [SetFont ''Arial'' ''B'' 10, Cell 40 8 (label @ '':''),
      SetFont ''Arial'' [] 10, Cell 0 8 v, Ln 8]"

text \<open>The calls made on the document, in order; \<open>date\<close> is the formatted clock reading.\<close>

definition reportCommands :: "StudentDetail \<Rightarrow> string \<Rightarrow> pdf_cmd list" where
  "reportCommands student date =
     [New ''P'' ''mm'' ''A4'' [], AddPage,
      SetFont ''Arial'' ''B'' 16, Cell 40 10 ''Student Report'', Ln 15,
      SetFont ''Arial'' ''B'' 14, Cell 40 10 ''School Management System'', Ln 10,
      SetFont ''Arial'' ''I'' 10, Cell 40 10 (''Generated on: '' @ date), Ln 15,
      SetFont ''Arial'' ''B'' 12, Cell 40 10 ''Personal Information'', Ln 10]
     @ addInfoRow ''ID'' (showInt (ID student))
     @ addInfoRow ''Name'' (Name student)
     @ addInfoRow ''Email'' (Email student)
     @ addInfoRow ''Phone'' (Phone student)
     @ addInfoRow ''Gender'' (Gender student)
     @ addInfoRow ''Date of Birth'' (DOB student)
     @ addInfoRow ''Admission Date'' (AdmissionDate student)
     @ [Ln 10,
        SetFont ''Arial'' ''B'' 12, Cell 40 10 ''Academic Information'', Ln 10]
     @ addInfoRow ''Class'' (Class student)
     @ addInfoRow ''Section'' (Section student)
     @ addInfoRow ''Roll Number'' (Roll student)
     @ [Ln 10,
        SetFont ''Arial'' ''B'' 12, Cell 40 10 ''Family Information'', Ln 10]
     @ addInfoRow ''Father's Name'' (FatherName student)
     @ addInfoRow ''Father's Phone'' (FatherPhone student)
     @ addInfoRow ''Mother's Name'' (MotherName student)
     @ addInfoRow ''Mother's Phone'' (MotherPhone student)
     @ addInfoRow ''Guardian's Name'' (GuardianName student)
     @ addInfoRow ''Guardian's Phone'' (GuardianPhone student)
     @ addInfoRow ''Relation of Guardian'' (RelationOfGuardian student)
     @ [Ln 10,
        SetFont ''Arial'' ''B'' 12, Cell 40 10 ''Address Information'', Ln 10]
     @ addInfoRow ''Current Address'' (CurrentAddress student)
     @ addInfoRow ''Permanent Address'' (PermanentAddress student)
     @ [Ln 10,
        SetY (- 30),
        SetFont ''Arial'' ''I'' 8,
        Cell 0 10 ''This is an official document of School Management System'', Ln 5,
        Cell 0 10 (''Report generated by: '' @ ReporterName student)]"

definition generatePDF :: "platform \<Rightarrow> StudentDetail \<Rightarrow> state \<Rightarrow> (string + string) \<times> state" where
  "generatePDF P student s =
     (case time_Now P s of
        (now, s1) \<Rightarrow>
          (case time_Now P s1 of
             (at, s2) \<Rightarrow> (pdfOutput P (reportCommands student (formatDate P now)) at, s2)))"

subsection \<open>Request handler\<close>

text \<open>
  \<^verbatim>\<open>strconv.Atoi\<close> of the standard library on a 64-bit platform: an optional sign, then
  one or more decimal digits, and a value that fits a signed 64-bit integer; anything
  else is an error.
\<close>

definition isDigit :: "char \<Rightarrow> bool" where
  "isDigit c = (48 \<le> (of_char c :: nat) \<and> (of_char c :: nat) \<le> 57)"

definition digitsValue :: "string \<Rightarrow> int" where
  "digitsValue ds = foldl (\<lambda>n c. n * 10 + (int (of_char c) - 48)) 0 ds"

definition strconv_Atoi :: "string \<Rightarrow> int option" where
  "strconv_Atoi str =
     (let neg = (str \<noteq> [] \<and> hd str = CHR ''-'');
          ds = (if str \<noteq> [] \<and> (hd str = CHR ''-'' \<or> hd str = CHR ''+'') then tl str else str);
          v = (if neg then - digitsValue ds else digitsValue ds)
      in if ds = [] \<or> \<not> list_all isDigit ds then None
         else if v < - (2 ^ 63) \<or> 2 ^ 63 - 1 < v then None
         else Some v)"

text \<open>\<^verbatim>\<open>http.Error\<close>.\<close>

definition http_Error :: "string \<Rightarrow> int \<Rightarrow> http_reply" where
  "http_Error msg code =
     \<lparr>Status = code,
      ReplyHeaders = [(''Content-Type'', ''text/plain; charset=utf-8''),
                      (''X-Content-Type-Options'', ''nosniff'')],
      ReplyBody = msg @ [char_of (10::nat)]\<rparr>"

definition generateReportHandler ::
  "platform \<Rightarrow> Config \<Rightarrow> string \<Rightarrow> state \<Rightarrow> http_reply run \<times> state" where
  "generateReportHandler P config studentID s =
     (case strconv_Atoi studentID of
        None \<Rightarrow> (Done (http_Error ''Invalid student ID'' 400), s)
      | Some n \<Rightarrow>
          if n \<le> 0 then (Done (http_Error ''Invalid student ID'' 400), s)
          else
            (case fetchStudentData P (BackendURL config) studentID s of
               (Exited, s1) \<Rightarrow> (Exited, s1)
             | (Done (Inl err), s1) \<Rightarrow>
                 (Done (http_Error ''Error fetching student data'' 500), s1)
             | (Done (Inr student), s1) \<Rightarrow>
                 (case generatePDF P student s1 of
                    (Inl err, s2) \<Rightarrow> (Done (http_Error ''Error generating PDF'' 500), s2)
                  | (Inr pdfBytes, s2) \<Rightarrow>
                      (Done \<lparr>Status = 200,
                             ReplyHeaders =
                               [(''Content-Type'', ''application/pdf''),
                                (''Content-Disposition'',
                                 ''attachment; filename=student_'' @ studentID @ ''_report.pdf'')],
                             ReplyBody = pdfBytes\<rparr>, s2))))"

subsection \<open>Notions used to state the properties\<close>

text \<open>The login request that the Authenticator sends for a configuration.\<close>

definition loginRequestOf :: "Config \<Rightarrow> request" where
  "loginRequestOf config =
     loginRequest config
       (JSONMap [(''username'', AdminEmail config), (''password'', AdminPassword config)])"

text \<open>The requests sent between two states of one run.\<close>

definition issued :: "state \<Rightarrow> state \<Rightarrow> request list" where
  "issued s s' = drop (length (sent s)) (sent s')"

text \<open>The value of the last cookie called \<open>name\<close> in a response, or \<open>old\<close> when the
  response has no such cookie.\<close>

definition cookieOr :: "string \<Rightarrow> (string \<times> string) list \<Rightarrow> string \<Rightarrow> string" where
  "cookieOr name cs old = (case map_of (rev cs) name of None \<Rightarrow> old | Some v \<Rightarrow> v)"

text \<open>
  A path id that denotes a positive integer in decimal: an optional plus sign, then one
  or more decimal digits, not all of them zero.
\<close>

definition specPositiveDecimal :: "string \<Rightarrow> bool" where
  "specPositiveDecimal str =
     (let ds = (case str of [] \<Rightarrow> [] | c # cs \<Rightarrow> if c = CHR ''+'' then cs else str)
      in ds \<noteq> [] \<and> list_all (\<lambda>c. c \<in> set ''0123456789'') ds
         \<and> list_ex (\<lambda>c. c \<noteq> CHR ''0'') ds)"

subsection \<open>Concrete collaborators for the examples\<close>

definition demoStudent :: StudentDetail where
  "demoStudent =
     \<lparr>ID = 1, Name = ''Ada'', Email = ''ada@example.com'', SystemAccess = True,
      Phone = ''555-0100'', Gender = ''F'', DOB = ''2010-12-10'', Class = ''7'',
      Section = ''B'', Roll = ''12'', FatherName = ''William'', FatherPhone = ''555-0101'',
      MotherName = ''Anne'', MotherPhone = ''555-0102'', GuardianName = ''Anne'',
      GuardianPhone = ''555-0102'', RelationOfGuardian = ''Mother'',
      CurrentAddress = ''12 St James Square'', PermanentAddress = ''12 St James Square'',
      AdmissionDate = ''2021-09-01'', ReporterName = ''Charles''\<rparr>"

text \<open>A backend that answers the n-th request of a run with the n-th entry of a script,
  and refuses the connection afterwards.\<close>

definition scripted :: "http_result list \<Rightarrow> request list \<Rightarrow> request \<Rightarrow> http_result" where
  "scripted rs hist req =
     (if length hist < length rs then rs ! length hist else NetError ''connection refused'')"

definition demoPlatform :: "time \<Rightarrow> http_result list \<Rightarrow> platform" where
  "demoPlatform t0 rs =
     \<lparr>upstream = scripted rs,
      clock = (\<lambda>n. t0 + int n),
      getenv = (\<lambda>key. []),
      newRequestOK = (\<lambda>url. True),
      decodeLogin =
        (\<lambda>b. if b = ''{login}''
             then Some \<lparr>AccessToken = ''A2'',
                        LoginUser = \<lparr>UserID = 1, UserName = ''admin'', UserRole = ''admin''\<rparr>\<rparr>
             else None),
      decodeStudent = (\<lambda>b. if b = ''{ada}'' then Some demoStudent else None),
      formatDate = (\<lambda>t. ''November 3, 2026''),
      pdfOutput = (\<lambda>cmds t. if cmds = [] then Inl ''no pages'' else Inr ''%PDF-1.3'')\<rparr>"

definition demoTokens :: AuthTokens where
  "demoTokens =
     \<lparr>accessToken = ''A1'', refreshToken = ''R1'', csrfToken = ''C1'', lastRefresh = 0\<rparr>"

definition demoState :: state where
  "demoState = \<lparr>authTokens = demoTokens, sent = [], ticks = 0\<rparr>"

definition demoConfig :: Config where
  "demoConfig =
     \<lparr>Port = ''5008'', BackendURL = ''http://localhost:5007/api/v1'',
      AdminEmail = ''admin@school-admin.com'', AdminPassword = ''3OU4zn3q6Zh9''\<rparr>"

definition loginOK :: response where
  "loginOK =
     \<lparr>StatusCode = 200,
      Cookies = [(''accessToken'', ''A2''), (''refreshToken'', ''R2''), (''csrfToken'', ''C2'')],
      Body = ''{login}''\<rparr>"

definition loginAccessOnly :: response where
  "loginAccessOnly =
     \<lparr>StatusCode = 200, Cookies = [(''accessToken'', ''A2'')], Body = ''{login}''\<rparr>"

definition studentOK :: response where
  "studentOK = \<lparr>StatusCode = 200, Cookies = [], Body = ''{ada}''\<rparr>"

definition statusOnly :: "int \<Rightarrow> response" where
  "statusOnly code = \<lparr>StatusCode = code, Cookies = [], Body = []\<rparr>"

definition loginNoCookies :: response where
  "loginNoCookies = \<lparr>StatusCode = 200, Cookies = [], Body = ''{login}''\<rparr>"

text \<open>The stored session of the examples, acquired at a given instant.\<close>

definition sessionAt :: "time \<Rightarrow> state" where
  "sessionAt t = \<lparr>authTokens = demoTokens\<lparr>lastRefresh := t\<rparr>, sent = [], ticks = 0\<rparr>"

text \<open>The state of a process that has not authenticated: the zero value of the global.\<close>

definition noSession :: state where
  "noSession =
     \<lparr>authTokens = \<lparr>accessToken = [], refreshToken = [], csrfToken = [], lastRefresh = 0\<rparr>,
      sent = [], ticks = 0\<rparr>"

text \<open>The state reached from \<open>noSession\<close> by a login, 20 minutes after the zero instant,
  that the backend answers with status 200 and no cookie.\<close>

definition afterCookielessLogin :: state where
  "afterCookielessLogin =
     snd (authenticateWithBackend
            (demoPlatform (20 * Minute) [Resp loginNoCookies, Resp studentOK]) demoConfig noSession)"

section \<open>Properties\<close>

lemmas model_defs =
  authenticateWithBackend_def json_Marshal_def client_Do_def loginRequest_def loginRequestOf_def
  storeCookie_def time_Now_def time_Since_def time_Sub_def Minute_def maxDuration_def
  minDuration_def loadConfig_def getEnv_def refreshIfStale_def studentRequest_def
  studentURL_def parseStudent_def issued_def cookieOr_def

lemmas demo_defs =
  demoPlatform_def scripted_def demoState_def demoTokens_def demoConfig_def loginOK_def
  loginAccessOnly_def studentOK_def statusOnly_def loginNoCookies_def sessionAt_def
  noSession_def

subsection \<open>Authenticator\<close>

lemma auth_sent:
  "sent (snd (authenticateWithBackend P config s)) = sent s @ [loginRequestOf config]"
  by (simp add: authenticateWithBackend_def json_Marshal_def client_Do_def loginRequestOf_def
      time_Now_def Let_def split: http_result.splits option.splits)

lemma auth_sent_eq:
  "authenticateWithBackend P config s = (r, s') \<Longrightarrow> sent s' = sent s @ [loginRequestOf config]"
  using auth_sent [of P config s] by simp

lemma auth_Done:
  assumes "authenticateWithBackend P config s = (Done u, s')"
  shows "\<exists>resp. upstream P (sent s) (loginRequestOf config) = Resp resp
           \<and> StatusCode resp = 200
           \<and> decodeLogin P (Body resp) \<noteq> None
           \<and> s' = \<lparr>authTokens = (foldl storeCookie (authTokens s) (Cookies resp))
                                   \<lparr>lastRefresh := clock P (ticks s)\<rparr>,
                    sent = sent s @ [loginRequestOf config],
                    ticks = Suc (ticks s)\<rparr>"
  using assms
  by (auto simp add: authenticateWithBackend_def json_Marshal_def client_Do_def loginRequestOf_def
      time_Now_def Let_def split: http_result.splits option.splits if_splits)

lemma foldl_storeCookie_access:
  "accessToken (foldl storeCookie a cs) = cookieOr ''accessToken'' cs (accessToken a)"
  by (induction cs rule: rev_induct) (auto simp: storeCookie_def cookieOr_def)

lemma foldl_storeCookie_refresh:
  "refreshToken (foldl storeCookie a cs) = cookieOr ''refreshToken'' cs (refreshToken a)"
  by (induction cs rule: rev_induct) (auto simp: storeCookie_def cookieOr_def)

lemma foldl_storeCookie_csrf:
  "csrfToken (foldl storeCookie a cs) = cookieOr ''csrfToken'' cs (csrfToken a)"
  by (induction cs rule: rev_induct) (auto simp: storeCookie_def cookieOr_def)

lemma foldl_storeCookie_last:
  "lastRefresh (foldl storeCookie a cs) = lastRefresh a"
  by (induction cs rule: rev_induct) (auto simp: storeCookie_def)

text \<open>
  C2 (amended). A run of the Authenticator that succeeds received a login response with
  status 200; afterwards each of the three token fields holds the value of the last
  cookie of that name in that response, or its previous value when the response carries
  no cookie of that name, and \<open>lastRefresh\<close> is the clock reading taken by that run.
  So a response that carries all three cookies replaces the whole session, and a
  response that lacks one leaves the older token of that name in the store.
\<close>

theorem authenticate_stores_response_cookies:
  assumes "authenticateWithBackend P config s = (Done (), s')"
  shows "\<exists>resp. upstream P (sent s) (loginRequestOf config) = Resp resp
           \<and> StatusCode resp = 200
           \<and> accessToken (authTokens s') = cookieOr ''accessToken'' (Cookies resp) (accessToken (authTokens s))
           \<and> refreshToken (authTokens s') = cookieOr ''refreshToken'' (Cookies resp) (refreshToken (authTokens s))
           \<and> csrfToken (authTokens s') = cookieOr ''csrfToken'' (Cookies resp) (csrfToken (authTokens s))
           \<and> lastRefresh (authTokens s') = clock P (ticks s)"
proof -
  from auth_Done [OF assms] obtain resp where
    r: "upstream P (sent s) (loginRequestOf config) = Resp resp" "StatusCode resp = 200"
    and s': "s' = \<lparr>authTokens = (foldl storeCookie (authTokens s) (Cookies resp))
                                   \<lparr>lastRefresh := clock P (ticks s)\<rparr>,
                    sent = sent s @ [loginRequestOf config],
                    ticks = Suc (ticks s)\<rparr>"
    by blast
  show ?thesis
    using r by (simp add: s' foldl_storeCookie_access foldl_storeCookie_refresh foldl_storeCookie_csrf)
qed

theorem authenticate_stores_response_cookies_witness:
  "authenticateWithBackend (demoPlatform 1000 [Resp loginOK]) demoConfig demoState =
     (Done (),
      \<lparr>authTokens = \<lparr>accessToken = ''A2'', refreshToken = ''R2'', csrfToken = ''C2'',
                     lastRefresh = 1000\<rparr>,
       sent = [loginRequestOf demoConfig], ticks = 1\<rparr>)
   \<and> (\<exists>resp. upstream (demoPlatform 1000 [Resp loginOK]) (sent demoState) (loginRequestOf demoConfig)
               = Resp resp
            \<and> StatusCode resp = 200
            \<and> ''A2'' = cookieOr ''accessToken'' (Cookies resp) (accessToken (authTokens demoState))
            \<and> ''R2'' = cookieOr ''refreshToken'' (Cookies resp) (refreshToken (authTokens demoState))
            \<and> ''C2'' = cookieOr ''csrfToken'' (Cookies resp) (csrfToken (authTokens demoState))
            \<and> 1000 = clock (demoPlatform 1000 [Resp loginOK]) (ticks demoState))"
proof -
  have run:
    "authenticateWithBackend (demoPlatform 1000 [Resp loginOK]) demoConfig demoState =
       (Done (),
        \<lparr>authTokens = \<lparr>accessToken = ''A2'', refreshToken = ''R2'', csrfToken = ''C2'',
                       lastRefresh = 1000\<rparr>,
         sent = [loginRequestOf demoConfig], ticks = 1\<rparr>)"
    by (simp add: model_defs demo_defs)
  from authenticate_stores_response_cookies [OF run] show ?thesis
    using run by simp
qed

text \<open>
  The claim as written fails: a login response with status 200 that sets only the
  \<open>accessToken\<close> cookie leaves \<open>refreshToken\<close> and \<open>csrfToken\<close> of the earlier
  session beside the new access token.
\<close>

theorem authenticate_mixes_sessions_counterexample:
  "upstream (demoPlatform 1000 [Resp loginAccessOnly]) (sent demoState) (loginRequestOf demoConfig)
     = Resp \<lparr>StatusCode = 200, Cookies = [(''accessToken'', ''A2'')], Body = ''{login}''\<rparr>
   \<and> authTokens demoState =
       \<lparr>accessToken = ''A1'', refreshToken = ''R1'', csrfToken = ''C1'', lastRefresh = 0\<rparr>
   \<and> fst (authenticateWithBackend (demoPlatform 1000 [Resp loginAccessOnly]) demoConfig demoState)
       = Done ()
   \<and> authTokens (snd (authenticateWithBackend (demoPlatform 1000 [Resp loginAccessOnly]) demoConfig demoState))
       = \<lparr>accessToken = ''A2'', refreshToken = ''R1'', csrfToken = ''C1'', lastRefresh = 1000\<rparr>"
  by (simp add: model_defs demo_defs)

subsection \<open>Resilient fetcher\<close>

lemma fetch_unfold:
  assumes "refreshIfStale P s = (Done (), s1)"
    and "newRequestOK P (studentURL b i)"
  shows "fetchStudentData P b i s =
     (case upstream P (sent s1) (studentRequest (studentURL b i) (authTokens s1)) of
        NetError e \<Rightarrow>
          (Done (Inl (ErrMakingRequest e)),
           s1\<lparr>sent := sent s1 @ [studentRequest (studentURL b i) (authTokens s1)]\<rparr>)
      | Resp resp \<Rightarrow>
          if StatusCode resp = 401 then
            (case authenticateWithBackend P (loadConfig P)
                    (s1\<lparr>sent := sent s1 @ [studentRequest (studentURL b i) (authTokens s1)]\<rparr>) of
               (Exited, s3) \<Rightarrow> (Exited, s3)
             | (Done _, s3) \<Rightarrow>
                 (case upstream P (sent s3) (studentRequest (studentURL b i) (authTokens s3)) of
                    NetError e \<Rightarrow>
                      (Done (Inl (ErrMakingRequestAfterRefresh e)),
                       s3\<lparr>sent := sent s3 @ [studentRequest (studentURL b i) (authTokens s3)]\<rparr>)
                  | Resp resp2 \<Rightarrow>
                      (Done (if StatusCode resp2 \<noteq> 200
                             then Inl (ErrStatusAfterRefresh (StatusCode resp2) (Body resp2))
                             else parseStudent P resp2),
                       s3\<lparr>sent := sent s3 @ [studentRequest (studentURL b i) (authTokens s3)]\<rparr>)))
          else
            (Done (if StatusCode resp = 404 then Inl (ErrNotFound i)
                   else if StatusCode resp \<noteq> 200 then Inl (ErrStatus (StatusCode resp) (Body resp))
                   else parseStudent P resp),
             s1\<lparr>sent := sent s1 @ [studentRequest (studentURL b i) (authTokens s1)]\<rparr>))"
  using assms
  by (simp add: fetchStudentData_def client_Do_def Let_def
      split: http_result.splits prod.splits run.splits)

lemma refresh_fresh:
  "\<not> 14 * Minute < time_Sub (clock P (ticks s)) (lastRefresh (authTokens s))
   \<Longrightarrow> refreshIfStale P s = (Done (), s\<lparr>ticks := Suc (ticks s)\<rparr>)"
  by (simp add: refreshIfStale_def time_Since_def time_Now_def)

lemma refresh_stale:
  "14 * Minute < time_Sub (clock P (ticks s)) (lastRefresh (authTokens s))
   \<Longrightarrow> refreshIfStale P s = authenticateWithBackend P (loadConfig P) (s\<lparr>ticks := Suc (ticks s)\<rparr>)"
  by (simp add: refreshIfStale_def time_Since_def time_Now_def)

lemma fetch_issued_after_refresh:
  "\<exists>xs. sent (snd (fetchStudentData P b i s)) = sent (snd (refreshIfStale P s)) @ xs
        \<and> (xs = [] \<or> Method (hd xs) = ''GET'')"
proof (cases "refreshIfStale P s")
  case (Pair r s1)
  show ?thesis
  proof (cases r)
    case Exited
    with Pair show ?thesis by (simp add: fetchStudentData_def)
  next
    case (Done u)
    show ?thesis
    proof (cases "newRequestOK P (studentURL b i)")
      case False
      with Pair Done show ?thesis by (simp add: fetchStudentData_def)
    next
      case True
      from Pair Done have r: "refreshIfStale P s = (Done (), s1)" by simp
      show ?thesis
        by (auto simp add: fetch_unfold [OF r True] r studentRequest_def
            dest!: auth_sent_eq split: http_result.splits prod.splits run.splits)
    qed
  qed
qed

lemma demo_fresh:
  "refreshIfStale (demoPlatform 0 rs) demoState = (Done (), demoState\<lparr>ticks := 1\<rparr>)"
  by (simp add: model_defs demo_defs)

lemma demo_loadConfig: "loadConfig (demoPlatform t0 rs) = demoConfig"
  by (simp add: model_defs demo_defs)

lemma demo_relogin:
  "rs ! 1 = Resp loginOK \<Longrightarrow> 1 < length rs \<Longrightarrow>
   authenticateWithBackend (demoPlatform 0 rs) demoConfig
     (demoState\<lparr>ticks := 1, sent := [studentRequest url demoTokens]\<rparr>) =
     (Done (),
      \<lparr>authTokens = \<lparr>accessToken = ''A2'', refreshToken = ''R2'', csrfToken = ''C2'',
                     lastRefresh = 1\<rparr>,
       sent = [studentRequest url demoTokens, loginRequestOf demoConfig], ticks = 2\<rparr>)"
  by (simp add: model_defs demo_defs)

lemma stale_iff: "(14 * Minute < time_Sub t u) = (14 * Minute < t - u)"
  by (simp add: time_Sub_def Minute_def maxDuration_def minDuration_def)

lemma refresh_sent:
  assumes "refreshIfStale P s = (r, s1)"
  shows "sent s1 = sent s @ (if 14 * Minute < clock P (ticks s) - lastRefresh (authTokens s)
                             then [loginRequestOf (loadConfig P)] else [])"
proof (cases "14 * Minute < time_Sub (clock P (ticks s)) (lastRefresh (authTokens s))")
  case True
  with assms have "authenticateWithBackend P (loadConfig P) (s\<lparr>ticks := Suc (ticks s)\<rparr>) = (r, s1)"
    by (simp add: refresh_stale)
  from auth_sent_eq [OF this] True show ?thesis
    by (simp add: stale_iff)
next
  case False
  with assms have "s1 = s\<lparr>ticks := Suc (ticks s)\<rparr>"
    by (simp add: refresh_fresh)
  with False show ?thesis
    by (simp add: stale_iff)
qed

lemma demo_stale_login:
  "rs ! 0 = Resp loginOK \<Longrightarrow> 0 < length rs \<Longrightarrow>
   refreshIfStale (demoPlatform (15 * Minute) rs) demoState =
     (Done (),
      \<lparr>authTokens = \<lparr>accessToken = ''A2'', refreshToken = ''R2'', csrfToken = ''C2'',
                     lastRefresh = 15 * Minute + 1\<rparr>,
       sent = [loginRequestOf demoConfig], ticks = 2\<rparr>)"
  by (simp add: model_defs demo_defs)

text \<open>
  C1 (amended). When the first read response of a fetch has status 401 and the
  re-authentication it triggers succeeds, the 401 is followed by exactly one login
  request and exactly one retried read request built from the renewed tokens. The whole
  call therefore sends the read request, one login request and the retried read request,
  preceded by the login request of the freshness check when, and only when, the stored
  session was more than 14 minutes old at the start of the call (two logins in that
  call). The outcome of the retried request is final: a transport error, or any status
  other than 200 (a second 401 among them), is returned as a failure and status 200 is
  decoded; nothing more is sent.
\<close>

theorem fetch_401_reauth_once_retry_once:
  assumes "refreshIfStale P s = (Done (), s1)"
    and "newRequestOK P (studentURL backendURL studentID)"
    and "upstream P (sent s1) (studentRequest (studentURL backendURL studentID) (authTokens s1)) = Resp r1"
    and "StatusCode r1 = 401"
    and "authenticateWithBackend P (loadConfig P)
           (s1\<lparr>sent := sent s1 @ [studentRequest (studentURL backendURL studentID) (authTokens s1)]\<rparr>)
         = (Done (), s3)"
  shows "issued s (snd (fetchStudentData P backendURL studentID s)) =
           (if 14 * Minute < clock P (ticks s) - lastRefresh (authTokens s)
            then [loginRequestOf (loadConfig P)] else [])
           @ [studentRequest (studentURL backendURL studentID) (authTokens s1),
              loginRequestOf (loadConfig P),
              studentRequest (studentURL backendURL studentID) (authTokens s3)]
         \<and> issued s1 (snd (fetchStudentData P backendURL studentID s)) =
           [studentRequest (studentURL backendURL studentID) (authTokens s1),
            loginRequestOf (loadConfig P),
            studentRequest (studentURL backendURL studentID) (authTokens s3)]
         \<and> fst (fetchStudentData P backendURL studentID s) =
             Done (case upstream P (sent s3) (studentRequest (studentURL backendURL studentID) (authTokens s3)) of
                     NetError e \<Rightarrow> Inl (ErrMakingRequestAfterRefresh e)
                   | Resp r2 \<Rightarrow>
                       if StatusCode r2 = 200 then parseStudent P r2
                       else Inl (ErrStatusAfterRefresh (StatusCode r2) (Body r2)))
         \<and> (\<forall>r2. upstream P (sent s3) (studentRequest (studentURL backendURL studentID) (authTokens s3)) = Resp r2
                  \<and> StatusCode r2 = 401
              \<longrightarrow> fst (fetchStudentData P backendURL studentID s) =
                    Done (Inl (ErrStatusAfterRefresh 401 (Body r2))))"
proof -
  let ?req1 = "studentRequest (studentURL backendURL studentID) (authTokens s1)"
  have s3: "sent s3 = sent s1 @ [?req1, loginRequestOf (loadConfig P)]"
    using auth_sent [of P "loadConfig P" "s1\<lparr>sent := sent s1 @ [?req1]\<rparr>"] assms(5) by simp
  have s1: "sent s1 = sent s @ (if 14 * Minute < clock P (ticks s) - lastRefresh (authTokens s)
                                 then [loginRequestOf (loadConfig P)] else [])"
    by (rule refresh_sent [OF assms(1)])
  have whole: "issued s (snd (fetchStudentData P backendURL studentID s)) =
           (if 14 * Minute < clock P (ticks s) - lastRefresh (authTokens s)
            then [loginRequestOf (loadConfig P)] else [])
           @ [?req1, loginRequestOf (loadConfig P),
              studentRequest (studentURL backendURL studentID) (authTokens s3)]"
    using assms(3,4,5) s3
    by (simp add: fetch_unfold [OF assms(1,2)] issued_def s1 split: http_result.splits)
  have rest: "issued s1 (snd (fetchStudentData P backendURL studentID s)) =
           [?req1, loginRequestOf (loadConfig P),
            studentRequest (studentURL backendURL studentID) (authTokens s3)]
         \<and> fst (fetchStudentData P backendURL studentID s) =
             Done (case upstream P (sent s3) (studentRequest (studentURL backendURL studentID) (authTokens s3)) of
                     NetError e \<Rightarrow> Inl (ErrMakingRequestAfterRefresh e)
                   | Resp r2 \<Rightarrow>
                       if StatusCode r2 = 200 then parseStudent P r2
                       else Inl (ErrStatusAfterRefresh (StatusCode r2) (Body r2)))
         \<and> (\<forall>r2. upstream P (sent s3) (studentRequest (studentURL backendURL studentID) (authTokens s3)) = Resp r2
                  \<and> StatusCode r2 = 401
              \<longrightarrow> fst (fetchStudentData P backendURL studentID s) =
                    Done (Inl (ErrStatusAfterRefresh 401 (Body r2))))"
    using assms(3,4,5) s3
    by (simp add: fetch_unfold [OF assms(1,2)] issued_def split: http_result.splits)
  from whole rest show ?thesis by blast
qed

theorem fetch_401_reauth_once_retry_once_witness:
  "(refreshIfStale (demoPlatform 0 [Resp (statusOnly 401), Resp loginOK, Resp (statusOnly 401)]) demoState
      = (Done (), demoState\<lparr>ticks := 1\<rparr>)
    \<and> newRequestOK (demoPlatform 0 [Resp (statusOnly 401), Resp loginOK, Resp (statusOnly 401)])
          (studentURL (BackendURL demoConfig) ''1'')
    \<and> upstream (demoPlatform 0 [Resp (statusOnly 401), Resp loginOK, Resp (statusOnly 401)]) []
          (studentRequest (studentURL (BackendURL demoConfig) ''1'') demoTokens)
        = Resp (statusOnly 401)
    \<and> StatusCode (statusOnly 401) = 401
    \<and> issued demoState
          (snd (fetchStudentData
                  (demoPlatform 0 [Resp (statusOnly 401), Resp loginOK, Resp (statusOnly 401)])
                  (BackendURL demoConfig) ''1'' demoState))
        = [studentRequest (studentURL (BackendURL demoConfig) ''1'') demoTokens,
           loginRequestOf demoConfig,
           studentRequest (studentURL (BackendURL demoConfig) ''1'')
             \<lparr>accessToken = ''A2'', refreshToken = ''R2'', csrfToken = ''C2'', lastRefresh = 1\<rparr>]
    \<and> fst (fetchStudentData
              (demoPlatform 0 [Resp (statusOnly 401), Resp loginOK, Resp (statusOnly 401)])
              (BackendURL demoConfig) ''1'' demoState)
        = Done (Inl (ErrStatusAfterRefresh 401 [])))
   \<and> (refreshIfStale
         (demoPlatform (15 * Minute)
            [Resp loginOK, Resp (statusOnly 401), Resp loginOK, Resp (statusOnly 401)]) demoState
        = (Done (),
           \<lparr>authTokens = \<lparr>accessToken = ''A2'', refreshToken = ''R2'', csrfToken = ''C2'',
                          lastRefresh = 15 * Minute + 1\<rparr>,
            sent = [loginRequestOf demoConfig], ticks = 2\<rparr>)
      \<and> issued demoState
          (snd (fetchStudentData
                  (demoPlatform (15 * Minute)
                     [Resp loginOK, Resp (statusOnly 401), Resp loginOK, Resp (statusOnly 401)])
                  (BackendURL demoConfig) ''1'' demoState))
        = [loginRequestOf demoConfig,
           studentRequest (studentURL (BackendURL demoConfig) ''1'')
             \<lparr>accessToken = ''A2'', refreshToken = ''R2'', csrfToken = ''C2'',
              lastRefresh = 15 * Minute + 1\<rparr>,
           loginRequestOf demoConfig,
           studentRequest (studentURL (BackendURL demoConfig) ''1'')
             \<lparr>accessToken = ''A2'', refreshToken = ''R2'', csrfToken = ''C2'',
              lastRefresh = 15 * Minute + 2\<rparr>]
      \<and> fst (fetchStudentData
              (demoPlatform (15 * Minute)
                 [Resp loginOK, Resp (statusOnly 401), Resp loginOK, Resp (statusOnly 401)])
              (BackendURL demoConfig) ''1'' demoState)
        = Done (Inl (ErrStatusAfterRefresh 401 [])))"
proof (rule conjI)
  let ?P = "demoPlatform 0 [Resp (statusOnly 401), Resp loginOK, Resp (statusOnly 401)]"
  let ?url = "studentURL (BackendURL demoConfig) ''1''"
  let ?s3 = "\<lparr>authTokens = \<lparr>accessToken = ''A2'', refreshToken = ''R2'', csrfToken = ''C2'',
                              lastRefresh = 1\<rparr>,
              sent = [studentRequest ?url demoTokens, loginRequestOf demoConfig], ticks = 2\<rparr>"
  have h1: "refreshIfStale ?P demoState = (Done (), demoState\<lparr>ticks := 1\<rparr>)"
    by (rule demo_fresh)
  have h2: "newRequestOK ?P ?url"
    by (simp add: demo_defs)
  have h3: "upstream ?P (sent (demoState\<lparr>ticks := 1\<rparr>))
              (studentRequest ?url (authTokens (demoState\<lparr>ticks := 1\<rparr>))) = Resp (statusOnly 401)"
    by (simp add: demo_defs)
  have h4: "StatusCode (statusOnly 401) = 401"
    by (simp add: statusOnly_def)
  have h5: "authenticateWithBackend ?P (loadConfig ?P)
              ((demoState\<lparr>ticks := 1\<rparr>)
                 \<lparr>sent := sent (demoState\<lparr>ticks := 1\<rparr>)
                    @ [studentRequest ?url (authTokens (demoState\<lparr>ticks := 1\<rparr>))]\<rparr>) = (Done (), ?s3)"
    using demo_relogin [of "[Resp (statusOnly 401), Resp loginOK, Resp (statusOnly 401)]" ?url]
    by (simp add: demo_loadConfig) (simp add: demoState_def)
  have second: "upstream ?P (sent ?s3) (studentRequest ?url (authTokens ?s3)) = Resp (statusOnly 401)"
    by (simp add: demo_defs)
  have fresh: "\<not> 14 * Minute < clock ?P (ticks demoState) - lastRefresh (authTokens demoState)"
    by (simp add: demo_defs Minute_def)
  from fetch_401_reauth_once_retry_once [OF h1 h2 h3 h4 h5] h2 h3 h4 second fresh
  show "refreshIfStale ?P demoState = (Done (), demoState\<lparr>ticks := 1\<rparr>)
    \<and> newRequestOK ?P ?url
    \<and> upstream ?P [] (studentRequest ?url demoTokens) = Resp (statusOnly 401)
    \<and> StatusCode (statusOnly 401) = 401
    \<and> issued demoState (snd (fetchStudentData ?P (BackendURL demoConfig) ''1'' demoState))
        = [studentRequest ?url demoTokens, loginRequestOf demoConfig,
           studentRequest ?url
             \<lparr>accessToken = ''A2'', refreshToken = ''R2'', csrfToken = ''C2'', lastRefresh = 1\<rparr>]
    \<and> fst (fetchStudentData ?P (BackendURL demoConfig) ''1'' demoState)
        = Done (Inl (ErrStatusAfterRefresh 401 []))"
    by (simp add: demo_fresh demo_loadConfig) (simp add: demoState_def statusOnly_def)
next
  let ?P = "demoPlatform (15 * Minute)
              [Resp loginOK, Resp (statusOnly 401), Resp loginOK, Resp (statusOnly 401)]"
  let ?url = "studentURL (BackendURL demoConfig) ''1''"
  let ?a1 = "\<lparr>accessToken = ''A2'', refreshToken = ''R2'', csrfToken = ''C2'',
              lastRefresh = 15 * Minute + 1\<rparr>"
  let ?a3 = "\<lparr>accessToken = ''A2'', refreshToken = ''R2'', csrfToken = ''C2'',
              lastRefresh = 15 * Minute + 2\<rparr>"
  let ?s1 = "\<lparr>authTokens = ?a1, sent = [loginRequestOf demoConfig], ticks = 2\<rparr>"
  let ?s3 = "\<lparr>authTokens = ?a3,
              sent = [loginRequestOf demoConfig, studentRequest ?url ?a1, loginRequestOf demoConfig],
              ticks = 3\<rparr>"
  have h1: "refreshIfStale ?P demoState = (Done (), ?s1)"
    by (rule demo_stale_login) simp_all
  have h2: "newRequestOK ?P ?url"
    by (simp add: demo_defs)
  have h3: "upstream ?P (sent ?s1) (studentRequest ?url (authTokens ?s1)) = Resp (statusOnly 401)"
    by (simp add: demo_defs)
  have h4: "StatusCode (statusOnly 401) = 401"
    by (simp add: statusOnly_def)
  have h5: "authenticateWithBackend ?P (loadConfig ?P)
              (?s1\<lparr>sent := sent ?s1 @ [studentRequest ?url (authTokens ?s1)]\<rparr>) = (Done (), ?s3)"
    by (simp add: model_defs demo_defs)
  have second: "upstream ?P (sent ?s3) (studentRequest ?url (authTokens ?s3)) = Resp (statusOnly 401)"
    by (simp add: demo_defs)
  have stale: "14 * Minute < clock ?P (ticks demoState) - lastRefresh (authTokens demoState)"
    by (simp add: demo_defs Minute_def)
  from fetch_401_reauth_once_retry_once [OF h1 h2 h3 h4 h5] h1 second stale
  show "refreshIfStale ?P demoState = (Done (), ?s1)
      \<and> issued demoState (snd (fetchStudentData ?P (BackendURL demoConfig) ''1'' demoState))
        = [loginRequestOf demoConfig, studentRequest ?url ?a1,
           loginRequestOf demoConfig, studentRequest ?url ?a3]
      \<and> fst (fetchStudentData ?P (BackendURL demoConfig) ''1'' demoState)
        = Done (Inl (ErrStatusAfterRefresh 401 []))"
    by (simp add: demo_loadConfig) (simp add: statusOnly_def)
qed

text \<open>
  The claim as written fails when the re-authentication itself fails: the login request
  is answered with status 500, the run ends inside the Authenticator and no retried
  request is sent.
\<close>

theorem fetch_401_failed_reauth_counterexample:
  "upstream (demoPlatform 0 [Resp (statusOnly 401), Resp (statusOnly 500)]) []
     (studentRequest (studentURL (BackendURL demoConfig) ''1'') demoTokens)
     = Resp (statusOnly 401)
   \<and> fst (fetchStudentData (demoPlatform 0 [Resp (statusOnly 401), Resp (statusOnly 500)])
             (BackendURL demoConfig) ''1'' demoState) = Exited
   \<and> sent (snd (fetchStudentData (demoPlatform 0 [Resp (statusOnly 401), Resp (statusOnly 500)])
                   (BackendURL demoConfig) ''1'' demoState))
       = [studentRequest (studentURL (BackendURL demoConfig) ''1'') demoTokens,
          loginRequestOf demoConfig]"
  by (simp add: fetchStudentData_def model_defs demo_defs)

text \<open>
  C3. A re-authentication that fails inside a fetch should fail that one request and
  leave the process running. The code ends the process instead: with a stale session and
  a backend that refuses every connection, the handler produces no reply at all.
\<close>

theorem stale_fetch_with_backend_down_exits:
  "fst (generateReportHandler (demoPlatform (15 * Minute) []) demoConfig ''1'' demoState) = Exited
   \<and> fst (fetchStudentData (demoPlatform (15 * Minute) []) (BackendURL demoConfig) ''1'' demoState)
       = Exited
   \<and> sent (snd (fetchStudentData (demoPlatform (15 * Minute) []) (BackendURL demoConfig) ''1'' demoState))
       = [loginRequestOf demoConfig]"
  by (simp add: generateReportHandler_def strconv_Atoi_def isDigit_def digitsValue_def
      fetchStudentData_def model_defs demo_defs)

text \<open>
  C4 (amended). The first request that a fetch sends is the login request exactly when
  \<open>now - lastRefresh\<close> is strictly more than 14 minutes, whatever the three tokens
  hold. So the process that never authenticated, whose \<open>lastRefresh\<close> is the zero
  instant, is refreshed at every instant later than 14 minutes after the zero instant;
  and when \<open>now - lastRefresh\<close> is at most 14 minutes the freshness check calls no
  Authenticator and leaves the tokens and the requests sent as they were, also when
  tokens are missing from the store.
\<close>

theorem proactive_refresh_iff_stale:
  "((\<exists>rest. issued s (snd (fetchStudentData P backendURL studentID s)) = loginRequestOf (loadConfig P) # rest)
     \<longleftrightarrow> 14 * Minute < clock P (ticks s) - lastRefresh (authTokens s))
   \<and> (lastRefresh (authTokens s) = 0 \<and> 14 * Minute < clock P (ticks s)
        \<longrightarrow> (\<exists>rest. issued s (snd (fetchStudentData P backendURL studentID s))
                      = loginRequestOf (loadConfig P) # rest))
   \<and> (\<not> 14 * Minute < clock P (ticks s) - lastRefresh (authTokens s)
        \<longrightarrow> refreshIfStale P s = (Done (), s\<lparr>ticks := Suc (ticks s)\<rparr>))"
proof -
  have main: "(\<exists>rest. issued s (snd (fetchStudentData P backendURL studentID s)) = loginRequestOf (loadConfig P) # rest)
     \<longleftrightarrow> 14 * Minute < clock P (ticks s) - lastRefresh (authTokens s)"
  proof (cases "14 * Minute < time_Sub (clock P (ticks s)) (lastRefresh (authTokens s))")
    case True
    obtain xs where
      "sent (snd (fetchStudentData P backendURL studentID s)) = sent (snd (refreshIfStale P s)) @ xs"
      using fetch_issued_after_refresh by blast
    then have "issued s (snd (fetchStudentData P backendURL studentID s)) = loginRequestOf (loadConfig P) # xs"
      by (simp add: refresh_stale [OF True] auth_sent issued_def)
    with True show ?thesis by (simp add: stale_iff)
  next
    case False
    obtain xs where xs:
      "sent (snd (fetchStudentData P backendURL studentID s)) = sent (snd (refreshIfStale P s)) @ xs"
      "xs = [] \<or> Method (hd xs) = ''GET''"
      using fetch_issued_after_refresh by blast
    then have "issued s (snd (fetchStudentData P backendURL studentID s)) = xs"
      by (simp add: refresh_fresh [OF False] issued_def)
    moreover have "\<not> (\<exists>rest. xs = loginRequestOf (loadConfig P) # rest)"
      using xs(2) by (auto simp: loginRequestOf_def loginRequest_def)
    ultimately show ?thesis using False by (simp add: stale_iff)
  qed
  have fresh: "\<not> 14 * Minute < clock P (ticks s) - lastRefresh (authTokens s)
        \<longrightarrow> refreshIfStale P s = (Done (), s\<lparr>ticks := Suc (ticks s)\<rparr>)"
    by (simp add: refresh_fresh stale_iff)
  from main fresh show ?thesis by simp
qed

theorem proactive_refresh_iff_stale_witness:
  "(\<exists>rest. issued (sessionAt (100 * Minute))
              (snd (fetchStudentData (demoPlatform (115 * Minute) [Resp loginOK, Resp studentOK])
                      (BackendURL demoConfig) ''1'' (sessionAt (100 * Minute))))
            = loginRequestOf demoConfig # rest)
   \<and> \<not> (\<exists>rest. issued (sessionAt (100 * Minute))
              (snd (fetchStudentData (demoPlatform (114 * Minute) [Resp studentOK])
                      (BackendURL demoConfig) ''1'' (sessionAt (100 * Minute))))
            = loginRequestOf demoConfig # rest)
   \<and> refreshIfStale (demoPlatform (114 * Minute) [Resp studentOK]) (sessionAt (100 * Minute))
       = (Done (), (sessionAt (100 * Minute))\<lparr>ticks := 1\<rparr>)
   \<and> lastRefresh (authTokens noSession) = 0
   \<and> (\<exists>rest. issued noSession
              (snd (fetchStudentData (demoPlatform (15 * Minute) [Resp loginOK, Resp studentOK])
                      (BackendURL demoConfig) ''1'' noSession))
            = loginRequestOf demoConfig # rest)"
proof -
  have stale: "14 * Minute < clock (demoPlatform (115 * Minute) [Resp loginOK, Resp studentOK])
                                (ticks (sessionAt (100 * Minute)))
                             - lastRefresh (authTokens (sessionAt (100 * Minute)))"
    and fresh: "\<not> 14 * Minute < clock (demoPlatform (114 * Minute) [Resp studentOK])
                                (ticks (sessionAt (100 * Minute)))
                             - lastRefresh (authTokens (sessionAt (100 * Minute)))"
    and never: "lastRefresh (authTokens noSession) = 0
                \<and> 14 * Minute < clock (demoPlatform (15 * Minute) [Resp loginOK, Resp studentOK])
                                   (ticks noSession)"
    by (simp_all add: demo_defs Minute_def)
  from proactive_refresh_iff_stale
         [of "sessionAt (100 * Minute)" "demoPlatform (115 * Minute) [Resp loginOK, Resp studentOK]"
            "BackendURL demoConfig" "''1''"]
       proactive_refresh_iff_stale
         [of "sessionAt (100 * Minute)" "demoPlatform (114 * Minute) [Resp studentOK]"
            "BackendURL demoConfig" "''1''"]
       proactive_refresh_iff_stale
         [of noSession "demoPlatform (15 * Minute) [Resp loginOK, Resp studentOK]"
            "BackendURL demoConfig" "''1''"]
       stale fresh never
  show ?thesis
    by (simp add: demo_loadConfig) (simp add: sessionAt_def)
qed

text \<open>
  The claim as written fails for a session that is absent in the sense of the data
  model (not all three tokens populated) and recent: a login answered with status 200
  and no cookie leaves the three tokens empty and stamps \<open>lastRefresh\<close>; the fetch that
  follows sends the read request with empty tokens and calls no Authenticator first.
\<close>

theorem fetch_with_tokenless_recent_session_counterexample:
  "authTokens afterCookielessLogin =
     \<lparr>accessToken = [], refreshToken = [], csrfToken = [], lastRefresh = 20 * Minute\<rparr>
   \<and> clock (demoPlatform (20 * Minute) [Resp loginNoCookies, Resp studentOK])
        (ticks afterCookielessLogin) = 20 * Minute + 1
   \<and> issued afterCookielessLogin
        (snd (fetchStudentData (demoPlatform (20 * Minute) [Resp loginNoCookies, Resp studentOK])
                (BackendURL demoConfig) ''1'' afterCookielessLogin))
       = [studentRequest (studentURL (BackendURL demoConfig) ''1'')
            \<lparr>accessToken = [], refreshToken = [], csrfToken = [], lastRefresh = 20 * Minute\<rparr>]"
  by (simp add: afterCookielessLogin_def fetchStudentData_def model_defs demo_defs)

text \<open>
  C6. When the first response of a fetch has status 404, the fetch returns the not-found
  failure for that id; after the freshness check it has sent the read request and
  nothing else (no login request, no retry), and the stored tokens are untouched.
\<close>

theorem fetch_404_is_terminal:
  assumes "refreshIfStale P s = (Done (), s1)"
    and "newRequestOK P (studentURL backendURL studentID)"
    and "upstream P (sent s1) (studentRequest (studentURL backendURL studentID) (authTokens s1)) = Resp r1"
    and "StatusCode r1 = 404"
  shows "fetchStudentData P backendURL studentID s =
           (Done (Inl (ErrNotFound studentID)),
            s1\<lparr>sent := sent s1 @ [studentRequest (studentURL backendURL studentID) (authTokens s1)]\<rparr>)"
  using assms(3,4) by (simp add: fetch_unfold [OF assms(1,2)])

theorem fetch_404_is_terminal_witness:
  "refreshIfStale (demoPlatform 0 [Resp (statusOnly 404)]) demoState = (Done (), demoState\<lparr>ticks := 1\<rparr>)
   \<and> newRequestOK (demoPlatform 0 [Resp (statusOnly 404)]) (studentURL (BackendURL demoConfig) ''9999'')
   \<and> upstream (demoPlatform 0 [Resp (statusOnly 404)]) []
         (studentRequest (studentURL (BackendURL demoConfig) ''9999'') demoTokens)
       = Resp (statusOnly 404)
   \<and> StatusCode (statusOnly 404) = 404
   \<and> fetchStudentData (demoPlatform 0 [Resp (statusOnly 404)]) (BackendURL demoConfig) ''9999'' demoState
       = (Done (Inl (ErrNotFound ''9999'')),
          \<lparr>authTokens = demoTokens,
           sent = [studentRequest (studentURL (BackendURL demoConfig) ''9999'') demoTokens],
           ticks = 1\<rparr>)"
proof -
  let ?P = "demoPlatform 0 [Resp (statusOnly 404)]"
  let ?url = "studentURL (BackendURL demoConfig) ''9999''"
  have h1: "refreshIfStale ?P demoState = (Done (), demoState\<lparr>ticks := 1\<rparr>)"
    by (rule demo_fresh)
  have h2: "newRequestOK ?P ?url"
    by (simp add: demo_defs)
  have h3: "upstream ?P (sent (demoState\<lparr>ticks := 1\<rparr>))
              (studentRequest ?url (authTokens (demoState\<lparr>ticks := 1\<rparr>))) = Resp (statusOnly 404)"
    by (simp add: demo_defs)
  have h4: "StatusCode (statusOnly 404) = 404"
    by (simp add: statusOnly_def)
  from fetch_404_is_terminal [OF h1 h2 h3 h4] h1 h2 h3 h4
  show ?thesis
    by (simp add: demoState_def)
qed

text \<open>
  C8 (amended). When the first response of a fetch has a status other than 401 and 404,
  the fetch is over with that response: status 200, and only 200, has its body decoded,
  giving the record, or the decoding failure when the body does not decode; every other
  status, the other 2xx codes among them, is returned as the upstream failure carrying
  that status and body. The retried request is classified in the same way by the
  theorem of C10.
\<close>

theorem fetch_only_200_is_decoded:
  assumes "refreshIfStale P s = (Done (), s1)"
    and "newRequestOK P (studentURL backendURL studentID)"
    and "upstream P (sent s1) (studentRequest (studentURL backendURL studentID) (authTokens s1)) = Resp r1"
    and "StatusCode r1 \<noteq> 401" and "StatusCode r1 \<noteq> 404"
  shows "fst (fetchStudentData P backendURL studentID s) =
           Done (if StatusCode r1 = 200
                 then (case decodeStudent P (Body r1) of
                         None \<Rightarrow> Inl ErrDecoding
                       | Some student \<Rightarrow> Inr student)
                 else Inl (ErrStatus (StatusCode r1) (Body r1)))"
  using assms(3,4,5) by (simp add: fetch_unfold [OF assms(1,2)] parseStudent_def)

theorem fetch_only_200_is_decoded_witness:
  "refreshIfStale (demoPlatform 0 [Resp studentOK]) demoState = (Done (), demoState\<lparr>ticks := 1\<rparr>)
   \<and> newRequestOK (demoPlatform 0 [Resp studentOK]) (studentURL (BackendURL demoConfig) ''1'')
   \<and> upstream (demoPlatform 0 [Resp studentOK]) []
         (studentRequest (studentURL (BackendURL demoConfig) ''1'') demoTokens)
       = Resp studentOK
   \<and> StatusCode studentOK \<noteq> 401 \<and> StatusCode studentOK \<noteq> 404 \<and> StatusCode studentOK = 200
   \<and> fst (fetchStudentData (demoPlatform 0 [Resp studentOK]) (BackendURL demoConfig) ''1'' demoState)
       = Done (Inr demoStudent)"
proof -
  let ?P = "demoPlatform 0 [Resp studentOK]"
  let ?url = "studentURL (BackendURL demoConfig) ''1''"
  have h1: "refreshIfStale ?P demoState = (Done (), demoState\<lparr>ticks := 1\<rparr>)"
    by (rule demo_fresh)
  have h2: "newRequestOK ?P ?url"
    by (simp add: demo_defs)
  have h3: "upstream ?P (sent (demoState\<lparr>ticks := 1\<rparr>))
              (studentRequest ?url (authTokens (demoState\<lparr>ticks := 1\<rparr>))) = Resp studentOK"
    by (simp add: demo_defs)
  have h4: "StatusCode studentOK \<noteq> 401" and h5: "StatusCode studentOK \<noteq> 404"
    by (simp_all add: studentOK_def)
  have dec: "decodeStudent ?P (Body studentOK) = Some demoStudent"
    by (simp add: demo_defs)
  from fetch_only_200_is_decoded [OF h1 h2 h3 h4 h5] h1 h2 h3 h4 h5 dec
  show ?thesis
    by (simp add: demoState_def) (simp add: studentOK_def)
qed

text \<open>
  The claim as written fails for the 2xx statuses other than 200: a response with
  status 201 and a body that decodes is returned as an upstream failure.
\<close>

theorem fetch_201_is_upstream_error_counterexample:
  "upstream (demoPlatform 0 [Resp (studentOK\<lparr>StatusCode := 201\<rparr>)]) []
     (studentRequest (studentURL (BackendURL demoConfig) ''1'') demoTokens)
     = Resp \<lparr>StatusCode = 201, Cookies = [], Body = ''{ada}''\<rparr>
   \<and> decodeStudent (demoPlatform 0 [Resp (studentOK\<lparr>StatusCode := 201\<rparr>)]) ''{ada}''
       = Some demoStudent
   \<and> fst (fetchStudentData (demoPlatform 0 [Resp (studentOK\<lparr>StatusCode := 201\<rparr>)])
             (BackendURL demoConfig) ''1'' demoState)
       = Done (Inl (ErrStatus 201 ''{ada}''))"
  by (simp add: fetchStudentData_def model_defs demo_defs)

text \<open>
  C10. On the retried request, after a first response with status 401 and a successful
  re-authentication, status 200 alone is decoded; every other status is returned as the
  failure of the retried request with that status and body. A 404 there is such a
  failure, not the not-found failure that a 404 gives on the first attempt.
\<close>

theorem retry_404_is_generic_error:
  assumes "refreshIfStale P s = (Done (), s1)"
    and "newRequestOK P (studentURL backendURL studentID)"
    and "upstream P (sent s1) (studentRequest (studentURL backendURL studentID) (authTokens s1)) = Resp r1"
    and "StatusCode r1 = 401"
    and "authenticateWithBackend P (loadConfig P)
           (s1\<lparr>sent := sent s1 @ [studentRequest (studentURL backendURL studentID) (authTokens s1)]\<rparr>)
         = (Done (), s3)"
    and "upstream P (sent s3) (studentRequest (studentURL backendURL studentID) (authTokens s3)) = Resp r2"
  shows "fst (fetchStudentData P backendURL studentID s) =
           Done (if StatusCode r2 = 200 then parseStudent P r2
                 else Inl (ErrStatusAfterRefresh (StatusCode r2) (Body r2)))
         \<and> (StatusCode r2 = 404 \<longrightarrow>
              fst (fetchStudentData P backendURL studentID s) = Done (Inl (ErrStatusAfterRefresh 404 (Body r2)))
              \<and> fst (fetchStudentData P backendURL studentID s) \<noteq> Done (Inl (ErrNotFound studentID)))"
  using assms(3,4,5,6) by (simp add: fetch_unfold [OF assms(1,2)])

theorem retry_404_is_generic_error_witness:
  "refreshIfStale (demoPlatform 0 [Resp (statusOnly 401), Resp loginOK, Resp (statusOnly 404)]) demoState
     = (Done (), demoState\<lparr>ticks := 1\<rparr>)
   \<and> newRequestOK (demoPlatform 0 [Resp (statusOnly 401), Resp loginOK, Resp (statusOnly 404)])
         (studentURL (BackendURL demoConfig) ''7'')
   \<and> upstream (demoPlatform 0 [Resp (statusOnly 401), Resp loginOK, Resp (statusOnly 404)]) []
         (studentRequest (studentURL (BackendURL demoConfig) ''7'') demoTokens)
       = Resp (statusOnly 401)
   \<and> StatusCode (statusOnly 401) = 401
   \<and> upstream (demoPlatform 0 [Resp (statusOnly 401), Resp loginOK, Resp (statusOnly 404)])
         [studentRequest (studentURL (BackendURL demoConfig) ''7'') demoTokens,
          loginRequestOf demoConfig]
         (studentRequest (studentURL (BackendURL demoConfig) ''7'')
            \<lparr>accessToken = ''A2'', refreshToken = ''R2'', csrfToken = ''C2'', lastRefresh = 1\<rparr>)
       = Resp (statusOnly 404)
   \<and> StatusCode (statusOnly 404) = 404
   \<and> fst (fetchStudentData
             (demoPlatform 0 [Resp (statusOnly 401), Resp loginOK, Resp (statusOnly 404)])
             (BackendURL demoConfig) ''7'' demoState)
       = Done (Inl (ErrStatusAfterRefresh 404 []))
   \<and> fst (fetchStudentData
             (demoPlatform 0 [Resp (statusOnly 401), Resp loginOK, Resp (statusOnly 404)])
             (BackendURL demoConfig) ''7'' demoState)
       \<noteq> Done (Inl (ErrNotFound ''7''))"
proof -
  let ?P = "demoPlatform 0 [Resp (statusOnly 401), Resp loginOK, Resp (statusOnly 404)]"
  let ?url = "studentURL (BackendURL demoConfig) ''7''"
  let ?s3 = "\<lparr>authTokens = \<lparr>accessToken = ''A2'', refreshToken = ''R2'', csrfToken = ''C2'',
                              lastRefresh = 1\<rparr>,
              sent = [studentRequest ?url demoTokens, loginRequestOf demoConfig], ticks = 2\<rparr>"
  have h1: "refreshIfStale ?P demoState = (Done (), demoState\<lparr>ticks := 1\<rparr>)"
    by (rule demo_fresh)
  have h2: "newRequestOK ?P ?url"
    by (simp add: demo_defs)
  have h3: "upstream ?P (sent (demoState\<lparr>ticks := 1\<rparr>))
              (studentRequest ?url (authTokens (demoState\<lparr>ticks := 1\<rparr>))) = Resp (statusOnly 401)"
    by (simp add: demo_defs)
  have h4: "StatusCode (statusOnly 401) = 401"
    by (simp add: statusOnly_def)
  have h5: "authenticateWithBackend ?P (loadConfig ?P)
              ((demoState\<lparr>ticks := 1\<rparr>)
                 \<lparr>sent := sent (demoState\<lparr>ticks := 1\<rparr>)
                    @ [studentRequest ?url (authTokens (demoState\<lparr>ticks := 1\<rparr>))]\<rparr>) = (Done (), ?s3)"
    using demo_relogin [of "[Resp (statusOnly 401), Resp loginOK, Resp (statusOnly 404)]" ?url]
    by (simp add: demo_loadConfig) (simp add: demoState_def)
  have h6: "upstream ?P (sent ?s3) (studentRequest ?url (authTokens ?s3)) = Resp (statusOnly 404)"
    by (simp add: demo_defs)
  from retry_404_is_generic_error [OF h1 h2 h3 h4 h5 h6] h1 h2 h3 h4 h6
  show ?thesis
    by (simp add: demoState_def) (simp add: statusOnly_def)
qed

subsection \<open>Request handler\<close>

lemma char_of_digits:
  "char_of (48::nat) = CHR ''0''" "char_of (49::nat) = CHR ''1''" "char_of (50::nat) = CHR ''2''"
  "char_of (51::nat) = CHR ''3''" "char_of (52::nat) = CHR ''4''" "char_of (53::nat) = CHR ''5''"
  "char_of (54::nat) = CHR ''6''" "char_of (55::nat) = CHR ''7''" "char_of (56::nat) = CHR ''8''"
  "char_of (57::nat) = CHR ''9''"
  by (rule of_char_eqI [where ?'a = nat], simp)+

lemma isDigit_iff: "isDigit c \<longleftrightarrow> c \<in> set ''0123456789''"
proof
  assume "isDigit c"
  then have "of_char c \<in> {48..(57::nat)}" by (simp add: isDigit_def)
  then have "of_char c \<in> {48, 49, 50, 51, 52, 53, 54, 55, 56, (57::nat)}"
    by (simp; arith)
  then have "char_of (of_char c :: nat) \<in> char_of ` {48, 49, 50, 51, 52, 53, 54, 55, 56, (57::nat)}"
    by (rule imageI)
  then show "c \<in> set ''0123456789''" by (simp add: char_of_digits)
next
  assume "c \<in> set ''0123456789''"
  then show "isDigit c" by (auto simp: isDigit_def)
qed

lemma digits_nonneg:
  "list_all isDigit ds \<Longrightarrow> 0 \<le> n \<Longrightarrow> 0 \<le> foldl (\<lambda>n c. n * 10 + (int (of_char c) - 48)) n ds"
proof (induction ds arbitrary: n)
  case Nil
  then show ?case by simp
next
  case (Cons c ds)
  from Cons.prems have "48 \<le> int (of_char c)" by (simp add: isDigit_def)
  with Cons.prems have "0 \<le> n * 10 + (int (of_char c) - 48)" by simp
  with Cons show ?case by simp
qed

lemma digits_all_zero:
  "\<not> list_ex (\<lambda>c. c \<noteq> CHR ''0'') ds \<Longrightarrow> foldl (\<lambda>n c. n * 10 + (int (of_char c) - 48)) 0 ds = 0"
  by (induction ds) auto

lemma digitsValue_pos:
  assumes "list_all isDigit ds" and "0 < digitsValue ds"
  shows "list_ex (\<lambda>c. c \<noteq> CHR ''0'') ds"
  using assms(2) digits_all_zero [of ds] by (auto simp: digitsValue_def)

lemma Atoi_positive:
  assumes "strconv_Atoi str = Some n" and "0 < n"
  shows "specPositiveDecimal str"
proof (cases str)
  case Nil
  with assms show ?thesis by (simp add: strconv_Atoi_def)
next
  case (Cons c cs)
  show ?thesis
  proof (cases "c = CHR ''-''")
    case True
    with Cons assms have "list_all isDigit cs" and "n = - digitsValue cs"
      by (auto simp: strconv_Atoi_def Let_def split: if_splits)
    with digits_nonneg [of cs 0] assms(2) show ?thesis by (simp add: digitsValue_def)
  next
    case notminus: False
    show ?thesis
    proof (cases "c = CHR ''+''")
      case True
      with Cons assms have "cs \<noteq> []" "list_all isDigit cs" "n = digitsValue cs"
        by (auto simp: strconv_Atoi_def Let_def split: if_splits)
      with digitsValue_pos [of cs] assms(2) Cons True show ?thesis
        by (simp add: specPositiveDecimal_def isDigit_iff [abs_def])
    next
      case False
      with Cons assms notminus have "list_all isDigit str" "n = digitsValue str"
        by (auto simp: strconv_Atoi_def Let_def split: if_splits)
      with digitsValue_pos [of str] assms(2) Cons False show ?thesis
        by (simp add: specPositiveDecimal_def isDigit_iff [abs_def])
    qed
  qed
qed

text \<open>
  C5. For every path id that is not the decimal writing of a positive integer (an
  optional plus sign, then decimal digits that are not all zero), the handler replies
  400 and returns the state as it found it: the fetcher is not called and no request is
  sent to the backend.
\<close>

theorem handler_rejects_bad_id_without_backend_call:
  assumes "\<not> specPositiveDecimal studentID"
  shows "generateReportHandler P config studentID s = (Done (http_Error ''Invalid student ID'' 400), s)
         \<and> Status (http_Error ''Invalid student ID'' 400) = 400
         \<and> issued s (snd (generateReportHandler P config studentID s)) = []"
proof -
  have "strconv_Atoi studentID = None \<or> (\<exists>n. strconv_Atoi studentID = Some n \<and> n \<le> 0)"
  proof (cases "strconv_Atoi studentID")
    case None
    then show ?thesis by simp
  next
    case (Some n)
    with assms Atoi_positive [of studentID n] have "\<not> 0 < n" by blast
    with Some show ?thesis by simp
  qed
  then show ?thesis
    by (auto simp: generateReportHandler_def http_Error_def issued_def)
qed

theorem handler_rejects_bad_id_without_backend_call_witness:
  "\<not> specPositiveDecimal ''abc''
   \<and> generateReportHandler (demoPlatform 0 [Resp studentOK]) demoConfig ''abc'' demoState
       = (Done (http_Error ''Invalid student ID'' 400), demoState)
   \<and> Status (http_Error ''Invalid student ID'' 400) = 400
   \<and> issued demoState
        (snd (generateReportHandler (demoPlatform 0 [Resp studentOK]) demoConfig ''abc'' demoState)) = []"
proof -
  have h: "\<not> specPositiveDecimal ''abc''"
    by (simp add: specPositiveDecimal_def)
  from handler_rejects_bad_id_without_backend_call
         [OF h, of "demoPlatform 0 [Resp studentOK]" demoConfig demoState] h
  show ?thesis by (simp add: issued_def)
qed




end
